theory Spec2Isabelle
  imports Complex_Main
begin

section \<open>The Origins swap provider (src/swaps/origins/OriginsSwapProvider.js)\<close>

text \<open>
  The provider is a class of asynchronous methods that talk to a chain client, to three
  contracts and to the wallet's store. The embedding keeps every method under its own
  name. What the collaborators answer is a field of the record \<open>world\<close>; what the methods
  change or cause (the provider cache, the calls to \<open>sendTransaction\<close> and to
  \<open>updateBalances\<close>, the lock) is a field of the record \<open>state\<close>, passed along and
  returned. A method that throws returns \<open>Inl\<close> of the error, together with the state
  reached when it threw.
\<close>

subsection \<open>Errors\<close>

text \<open>A JavaScript error with its \<open>name\<close> (the catch blocks test it) and its message.\<close>

datatype error = JsError (err_name: string) (err_message: string)

text \<open>Reading a property of \<open>undefined\<close> or \<open>null\<close>.\<close>

definition TypeError :: error where
  "TypeError = JsError ''TypeError'' ''Cannot read properties of undefined''"

subsection \<open>bignumber.js values\<close>

text \<open>
  A BigNumber is a finite decimal, an infinity or NaN. The finite ones are carried as
  rationals; only \<open>dividedBy\<close> rounds, to \<open>DECIMAL_PLACES\<close> places half away from zero
  (the library's defaults: \<open>DECIMAL_PLACES = 20\<close>, \<open>ROUNDING_MODE = ROUND_HALF_UP\<close>).
  \<open>toFixed()\<close>, \<open>toString()\<close> and \<open>BN(string)\<close> do not change the value, so a decimal
  string is carried as the value it denotes.
\<close>

datatype bn = BN rat | PosInfinity | NegInfinity | NaN

definition DECIMAL_PLACES :: nat where
  "DECIMAL_PLACES = 20"

definition round_half_up :: "nat \<Rightarrow> rat \<Rightarrow> rat" where
  "round_half_up dp x = sgn x * of_int \<lfloor>\<bar>x\<bar> * 10 ^ dp + 1 / 2\<rfloor> / 10 ^ dp"

fun bn_sign :: "bn \<Rightarrow> rat" where
  "bn_sign (BN x) = sgn x"
| "bn_sign PosInfinity = 1"
| "bn_sign NegInfinity = - 1"
| "bn_sign NaN = 0"

fun times_bn :: "bn \<Rightarrow> bn \<Rightarrow> bn" where
  "times_bn (BN x) (BN y) = BN (x * y)"
| "times_bn a b =
     (if a = NaN \<or> b = NaN \<or> bn_sign a * bn_sign b = 0 then NaN
      else if 0 < bn_sign a * bn_sign b then PosInfinity else NegInfinity)"

fun dividedBy :: "bn \<Rightarrow> bn \<Rightarrow> bn" where
  "dividedBy (BN x) (BN y) =
     (if y = 0 then (if x = 0 then NaN else if 0 < x then PosInfinity else NegInfinity)
      else BN (round_half_up DECIMAL_PLACES (x / y)))"
| "dividedBy a b =
     (if a = NaN \<or> b = NaN then NaN
      else (case (a, b) of
              (BN x, _) \<Rightarrow> BN 0
            | (_, BN y) \<Rightarrow>
                if 0 < bn_sign a * (if y < 0 then - 1 else 1) then PosInfinity
                else NegInfinity
            | _ \<Rightarrow> NaN))"

text \<open>
  \<open>ethers.BigNumber.from(BN(x).toFixed())\<close>: ethers accepts the text of an integer and
  throws on every other string.
\<close>

definition ethers_BigNumber_from :: "bn \<Rightarrow> error + int" where
  "ethers_BigNumber_from a =
     (case a of
        BN x \<Rightarrow> if x = of_int \<lfloor>x\<rfloor> then Inr \<lfloor>x\<rfloor>
                else Inl (JsError ''Error'' ''invalid BigNumber string'')
      | _ \<Rightarrow> Inl (JsError ''Error'' ''invalid BigNumber string''))"

text \<open>\<open>String.prototype.toLowerCase\<close> on the ASCII text of an address.\<close>

definition toLowerCase :: "string \<Rightarrow> string" where
  "toLowerCase s =
     map (\<lambda>c. if 65 \<le> (of_char c :: nat) \<and> (of_char c :: nat) \<le> 90
              then char_of ((of_char c :: nat) + 32) else c) s"

subsection \<open>Records of the wallet\<close>

text \<open>An entry of the \<open>cryptoassets\<close> table.\<close>

record asset_info =
  chain :: string
  decimals :: nat
  contractAddress :: "string option"

text \<open>\<open>currencyToUnit\<close> and \<open>unitToCurrency\<close> of @liquality/cryptoassets.\<close>

definition currencyToUnit :: "asset_info \<Rightarrow> bn \<Rightarrow> bn" where
  "currencyToUnit asset v = times_bn v (BN (10 ^ decimals asset))"

definition unitToCurrency :: "asset_info \<Rightarrow> bn \<Rightarrow> bn" where
  "unitToCurrency asset v = dividedBy v (BN (10 ^ decimals asset))"

text \<open>A transaction as the chain client reports it.\<close>

record tx =
  hash :: string
  confirmations :: nat

text \<open>A receipt; \<open>receiptStatus\<close> is \<open>Number(status)\<close>.\<close>

record receipt =
  receiptStatus :: int

text \<open>The call a transaction encodes (\<open>interface.encodeFunctionData\<close>).\<close>

datatype calldata = Approve string int | Contribute int

text \<open>The fields handed to \<open>client.chain.sendTransaction\<close>.\<close>

record txdata =
  tx_from :: "string option"
  tx_to :: "string option"
  tx_value :: bn
  tx_data :: calldata
  tx_fee :: "rat option"

text \<open>The fields handed to \<open>estimateGas\<close>; \<open>raw_value\<close> is the number whose
  hexadecimal text the source builds.\<close>

record rawtx =
  raw_from :: "string option"
  raw_to :: "string option"
  raw_data :: calldata
  raw_value :: bn

text \<open>
  A quote. \<open>getQuote\<close> returns an object with the four fields \<open>from\<close>, \<open>to\<close>,
  \<open>fromAmount\<close> (a decimal string) and \<open>toAmount\<close> (a BigNumber); \<open>fee\<close> and the two
  account ids are properties that the other methods read and \<open>getQuote\<close> does not set,
  absent (\<open>None\<close>) in what it returns. \<open>from\<close> and \<open>to\<close> are named \<open>fromAsset\<close> and
  \<open>toAsset\<close> here.
\<close>

record quote =
  fromAsset :: string
  toAsset :: string
  fromAmount :: bn
  toAmount :: bn
  fee :: "rat option"
  fromAccountId :: "string option"
  toAccountId :: "string option"

text \<open>A partial update of a swap, as the methods return it.\<close>

record updates =
  status :: string
  endTime :: "nat option"
  approveTx :: "tx option"
  approveTxHash :: "string option"
  swapTx :: "tx option"
  swapTxHash :: "string option"

text \<open>A swap record: a quote with the fields the state machine reads.\<close>

record swap = quote +
  status :: string
  approveTxHash :: "string option"
  swapTxHash :: "string option"

subsection \<open>World and state\<close>

text \<open>
  What the collaborators answer during one call. The tables \<open>cryptoassets\<close>, \<open>chains\<close>
  and \<open>ChainNetworks\<close> and the predicate \<open>isERC20\<close> are imported by the source and are
  parameters here. A contract read or a client call answers a value or throws.
  \<open>getClient\<close> and \<open>getAccount\<close> of the base class hand out the chain client and the
  account; the client's answers are the fields \<open>chain_sendTransaction\<close>,
  \<open>chain_getTransactionByHash\<close>, \<open>getTransactionReceipt\<close> and \<open>estimateGas\<close>.
\<close>

record world =
  cryptoassets :: "string \<rightharpoonup> asset_info"
  chains :: "string \<rightharpoonup> string"
  ChainNetworks :: "string \<rightharpoonup> (string \<rightharpoonup> nat)"
  isERC20 :: "string \<Rightarrow> bool"
  rpcURL :: string
  presaleAddress :: string
  controllerAddress :: string
  presale_isClosed :: "error + bool"
  presale_PPM :: "error + nat"
  presale_exchangeRate :: "error + nat"
  erc20_allowance :: "string \<Rightarrow> string \<Rightarrow> string \<Rightarrow> error + nat"
  getUnusedAddresses :: "string \<Rightarrow> string \<Rightarrow> string list \<Rightarrow> string option \<Rightarrow> error + string list"
  chain_sendTransaction :: "txdata \<Rightarrow> error + tx"
  chain_getTransactionByHash :: "string option \<Rightarrow> error + tx option"
  getTransactionReceipt :: "string option \<Rightarrow> error + receipt option"
  estimateGas :: "rawtx \<Rightarrow> error + nat"
  Date_now :: nat

datatype lock_event = Acquire string string | Release string string

record state =
  apiCache :: "nat \<rightharpoonup> string"
  sendTransactionCalls :: "txdata list"
  updateBalancesCalls :: "(string \<times> string \<times> string list) list"
  lockEvents :: "lock_event list"

type_synonym 'a M = "state \<Rightarrow> (error + 'a) \<times> state"

definition ret :: "'a \<Rightarrow> 'a M" where
  "ret a = (\<lambda>s. (Inr a, s))"

definition throw :: "error \<Rightarrow> 'a M" where
  "throw e = (\<lambda>s. (Inl e, s))"

text \<open>\<open>await\<close>: the rest of the method runs on the value, an error ends the method.\<close>

definition andThen :: "'a M \<Rightarrow> ('a \<Rightarrow> 'b M) \<Rightarrow> 'b M" where
  "andThen m f = (\<lambda>s. case m s of (Inl e, s') \<Rightarrow> (Inl e, s') | (Inr a, s') \<Rightarrow> f a s')"

text \<open>The answer of a collaborator that leaves the state alone.\<close>

definition answer :: "error + 'a \<Rightarrow> 'a M" where
  "answer r = (\<lambda>s. (r, s))"

subsection \<open>Helper methods\<close>

text \<open>
  \<open>_getApi(network, asset)\<close>: the provider of the asset's chain on this network, created
  on first use and cached under the chain id. A missing table entry is a property read
  on \<open>undefined\<close>. A provider is carried as the URL it was built from.
\<close>

definition getApi :: "world \<Rightarrow> string \<Rightarrow> string \<Rightarrow> string M" where
  "getApi w network asset = (\<lambda>s.
     case cryptoassets w asset of
       None \<Rightarrow> (Inl TypeError, s)
     | Some info \<Rightarrow>
         (case ChainNetworks w (chain info) of
            None \<Rightarrow> (Inl TypeError, s)
          | Some nets \<Rightarrow>
              (case nets network of
                 None \<Rightarrow> (Inl TypeError, s)
               | Some chainId \<Rightarrow>
                   (case apiCache s chainId of
                      Some api \<Rightarrow> (Inr api, s)
                    | None \<Rightarrow>
                        (Inr (rpcURL w),
                         s\<lparr>apiCache := (apiCache s)(chainId \<mapsto> rpcURL w)\<rparr>)))))"

text \<open>\<open>client.chain.sendTransaction(txData)\<close>: the call is recorded, the client answers.\<close>

definition sendTransaction :: "world \<Rightarrow> txdata \<Rightarrow> tx M" where
  "sendTransaction w txData = (\<lambda>s.
     (chain_sendTransaction w txData,
      s\<lparr>sendTransactionCalls := sendTransactionCalls s @ [txData]\<rparr>))"

text \<open>\<open>this.updateBalances({ network, walletId, assets })\<close>: not awaited, recorded.\<close>

definition updateBalances :: "string \<Rightarrow> string \<Rightarrow> string list \<Rightarrow> unit M" where
  "updateBalances network walletId assets = (\<lambda>s.
     (Inr (), s\<lparr>updateBalancesCalls := updateBalancesCalls s @ [(network, walletId, assets)]\<rparr>))"

text \<open>
  The catch block of the two polling methods: an error named \<open>TxNotFoundError\<close> is
  logged and the method returns \<open>undefined\<close>; any other error is thrown again.
\<close>

definition catchTxNotFound :: "'a option M \<Rightarrow> 'a option M" where
  "catchTxNotFound m = (\<lambda>s.
     case m s of
       (Inl e, s') \<Rightarrow> if err_name e = ''TxNotFoundError'' then (Inr None, s') else (Inl e, s')
     | (Inr a, s') \<Rightarrow> (Inr a, s'))"

text \<open>
  Modelled from the spec: \<open>withInterval\<close> and \<open>withLock\<close> of
  store/actions/performNextAction/utils, which is not among the sources. The spec
  describes the first as a retrying task with attempt-once semantics (the caller owns
  the interval) and the second as a keyed mutex, acquired before the submission and
  released on every exit path.
\<close>

definition withInterval :: "'a M \<Rightarrow> 'a M" where
  "withInterval func = func"

definition withLock :: "string \<Rightarrow> string \<Rightarrow> 'a M \<Rightarrow> 'a M" where
  "withLock network asset func = (\<lambda>s.
     case func (s\<lparr>lockEvents := lockEvents s @ [Acquire network asset]\<rparr>) of
       (r, s') \<Rightarrow> (r, s'\<lparr>lockEvents := lockEvents s' @ [Release network asset]\<rparr>))"

subsection \<open>Quotes\<close>

definition checkSaleClosed :: "world \<Rightarrow> string \<Rightarrow> bool M" where
  "checkSaleClosed w network =
     andThen (getApi w network ''ZERO'') (\<lambda>api. answer (presale_isClosed w))"

definition getDepositRate :: "world \<Rightarrow> string \<Rightarrow> bn M" where
  "getDepositRate w network =
     andThen (getApi w network ''ZERO'') (\<lambda>api.
     andThen (answer (presale_PPM w)) (\<lambda>PPM.
     andThen (answer (presale_exchangeRate w)) (\<lambda>exchangeRate.
     ret (dividedBy (BN (of_nat exchangeRate)) (BN (of_nat PPM))))))"

definition getQuote :: "world \<Rightarrow> string \<Rightarrow> string \<Rightarrow> string \<Rightarrow> rat \<Rightarrow> quote option M" where
  "getQuote w network from to amount =
     (case cryptoassets w from of
        None \<Rightarrow> throw TypeError
      | Some fromInfo \<Rightarrow>
          if chain fromInfo \<noteq> ''rsk'' then ret None
          else (case cryptoassets w to of
             None \<Rightarrow> throw TypeError
           | Some toInfo \<Rightarrow>
               if chain toInfo \<noteq> ''rsk'' \<or> amount \<le> 0 then ret None
               else if from \<noteq> ''SOV'' \<or> to \<noteq> ''ZERO'' then ret None
               else
                 andThen (checkSaleClosed w network) (\<lambda>isClosed.
                 if isClosed then ret None
                 else
                   andThen (getDepositRate w network) (\<lambda>rate.
                   let fromAmountInUnit = currencyToUnit fromInfo (BN amount);
                       toAmountInUnit = times_bn fromAmountInUnit rate
                   in ret (Some \<lparr>fromAsset = from, toAsset = to,
                                  fromAmount = fromAmountInUnit, toAmount = toAmountInUnit,
                                  fee = None, fromAccountId = None, toAccountId = None\<rparr>)))))"

subsection \<open>Approval\<close>

definition requiresApproval :: "world \<Rightarrow> string \<Rightarrow> string \<Rightarrow> 'a quote_scheme \<Rightarrow> bool M" where
  "requiresApproval w network walletId q =
     (if \<not> isERC20 w (fromAsset q) then ret False
      else (case cryptoassets w (fromAsset q) of
         None \<Rightarrow> throw TypeError
       | Some fromInfo \<Rightarrow>
           (case contractAddress fromInfo of
              None \<Rightarrow> throw TypeError
            | Some tokenAddress \<Rightarrow>
                andThen (getApi w network (fromAsset q)) (\<lambda>api.
                andThen (answer (getUnusedAddresses w network walletId [fromAsset q] (toAccountId q)))
                  (\<lambda>addresses.
                case addresses of
                  [] \<Rightarrow> throw TypeError
                | fromAddress # rest \<Rightarrow>
                    andThen (answer (erc20_allowance w (toLowerCase tokenAddress)
                                       (toLowerCase fromAddress) (toLowerCase (presaleAddress w))))
                      (\<lambda>allowance.
                    andThen (answer (ethers_BigNumber_from (fromAmount q))) (\<lambda>inputAmount.
                    if inputAmount \<le> int allowance then ret False else ret True)))))))"

text \<open>
  \<open>encodeFunctionData\<close> with a \<open>uint256\<close> argument throws on a number outside
  \<open>0 .. 2 ^ 256 - 1\<close>.
\<close>

definition encode_uint256 :: "int \<Rightarrow> error + int" where
  "encode_uint256 n =
     (if n < 0 \<or> 2 ^ 256 \<le> n then Inl (JsError ''Error'' ''value out-of-bounds'')
      else Inr n)"

definition buildApprovalTx :: "world \<Rightarrow> string \<Rightarrow> string \<Rightarrow> 'a quote_scheme \<Rightarrow> txdata M" where
  "buildApprovalTx w network walletId q =
     andThen (answer (getUnusedAddresses w network walletId [fromAsset q] (toAccountId q)))
       (\<lambda>addresses.
     andThen (getApi w network (fromAsset q)) (\<lambda>api.
     case addresses of
       [] \<Rightarrow> throw (JsError ''Error'' ''invalid contract address or ENS name'')
     | fromAddress # rest \<Rightarrow>
         andThen (answer (ethers_BigNumber_from (fromAmount q))) (\<lambda>inputAmount.
         andThen (answer (encode_uint256 inputAmount)) (\<lambda>encodedAmount.
         case cryptoassets w (fromAsset q) of
           None \<Rightarrow> throw TypeError
         | Some fromInfo \<Rightarrow>
             ret \<lparr>tx_from = Some fromAddress, tx_to = contractAddress fromInfo,
                  tx_value = BN 0,
                  tx_data = Approve (toLowerCase (presaleAddress w)) encodedAmount,
                  tx_fee = fee q\<rparr>))))"

definition approveTokens :: "world \<Rightarrow> string \<Rightarrow> string \<Rightarrow> 'a quote_scheme \<Rightarrow> updates M" where
  "approveTokens w network walletId q =
     andThen (requiresApproval w network walletId q) (\<lambda>requiresApproval.
     if \<not> requiresApproval
     then ret \<lparr>updates.status = ''APPROVE_CONFIRMED'', endTime = None, approveTx = None,
               updates.approveTxHash = None, swapTx = None, updates.swapTxHash = None\<rparr>
     else
       andThen (buildApprovalTx w network walletId q) (\<lambda>txData.
       andThen (sendTransaction w txData) (\<lambda>approveTx.
       ret \<lparr>updates.status = ''WAITING_FOR_APPROVE_CONFIRMATIONS'', endTime = None,
            approveTx = Some approveTx, updates.approveTxHash = Some (hash approveTx),
            swapTx = None, updates.swapTxHash = None\<rparr>)))"

subsection \<open>Swap\<close>

definition buildSwapTx :: "world \<Rightarrow> string \<Rightarrow> string \<Rightarrow> 'a quote_scheme \<Rightarrow> txdata M" where
  "buildSwapTx w network walletId q =
     andThen (getApi w network (fromAsset q)) (\<lambda>api.
     andThen (answer (ethers_BigNumber_from (fromAmount q))) (\<lambda>inputAmount.
     andThen (answer (encode_uint256 inputAmount)) (\<lambda>encodedAmount.
     ret \<lparr>tx_from = fromAccountId q, tx_to = Some (controllerAddress w),
          tx_value = (if isERC20 w (fromAsset q) then BN 0 else fromAmount q),
          tx_data = Contribute encodedAmount,
          tx_fee = fee q\<rparr>)))"

definition sendSwap :: "world \<Rightarrow> string \<Rightarrow> string \<Rightarrow> 'a quote_scheme \<Rightarrow> updates M" where
  "sendSwap w network walletId q =
     andThen (buildSwapTx w network walletId q) (\<lambda>txData.
     andThen (sendTransaction w txData) (\<lambda>swapTx.
     ret \<lparr>updates.status = ''WAITING_FOR_SWAP_CONFIRMATIONS'', endTime = None,
          approveTx = None, updates.approveTxHash = None,
          swapTx = Some swapTx, updates.swapTxHash = Some (hash swapTx)\<rparr>))"

subsection \<open>Fees\<close>

definition txTypes_SWAP :: string where
  "txTypes_SWAP = ''SWAP''"

definition fromTxType :: string where
  "fromTxType = txTypes_SWAP"

text \<open>
  The loop over \<open>feePrices\<close>: \<open>fees[feePrice]\<close> is set for one price after the other;
  \<open>cryptoassets[nativeAsset]\<close> is read in each round.
\<close>

fun feesLoop :: "world \<Rightarrow> string \<Rightarrow> nat \<Rightarrow> rat list \<Rightarrow> (rat \<rightharpoonup> bn) \<Rightarrow> error + (rat \<rightharpoonup> bn)" where
  "feesLoop w nativeAsset gasLimit [] fees = Inr fees"
| "feesLoop w nativeAsset gasLimit (feePrice # feePrices) fees =
     (let gasPrice = times_bn (BN feePrice) (BN 1000000000);
          fee = times_bn (times_bn (BN (of_nat gasLimit)) (BN (11 / 10))) gasPrice
      in case cryptoassets w nativeAsset of
           None \<Rightarrow> Inl TypeError
         | Some nativeInfo \<Rightarrow>
             feesLoop w nativeAsset gasLimit feePrices
               (fees(feePrice \<mapsto> unitToCurrency nativeInfo fee)))"

definition estimateFees ::
  "world \<Rightarrow> string \<Rightarrow> string \<Rightarrow> string \<Rightarrow> string \<Rightarrow> 'a quote_scheme \<Rightarrow> rat list \<Rightarrow> (rat \<rightharpoonup> bn) M" where
  "estimateFees w network walletId asset txType q feePrices =
     (if txType \<noteq> fromTxType then throw (JsError ''Error'' (''Invalid tx type '' @ txType))
      else (case cryptoassets w asset of
         None \<Rightarrow> throw TypeError
       | Some assetInfo \<Rightarrow>
           (case world.chains w (chain assetInfo) of
              None \<Rightarrow> throw TypeError
            | Some nativeAsset \<Rightarrow>
                andThen (requiresApproval w network walletId q) (\<lambda>required.
                andThen
                  (if required
                   then
                     andThen (buildApprovalTx w network walletId q) (\<lambda>approvalTx.
                     andThen (answer (estimateGas w
                                \<lparr>raw_from = tx_from approvalTx, raw_to = tx_to approvalTx,
                                 raw_data = tx_data approvalTx,
                                 raw_value = tx_value approvalTx\<rparr>)) (\<lambda>gas.
                     ret (0 + gas)))
                   else ret 0) (\<lambda>gasLimit.
                answer (feesLoop w nativeAsset (gasLimit + 750000) feePrices Map.empty))))))"

subsection \<open>State transitions\<close>

definition waitForApproveConfirmations ::
  "world \<Rightarrow> string \<Rightarrow> string \<Rightarrow> 'a swap_scheme \<Rightarrow> updates option M" where
  "waitForApproveConfirmations w network walletId swap =
     catchTxNotFound
       (andThen (answer (chain_getTransactionByHash w (swap.approveTxHash swap))) (\<lambda>found.
        case found of
          None \<Rightarrow> ret None
        | Some t \<Rightarrow>
            if 0 < confirmations t
            then ret (Some \<lparr>updates.status = ''APPROVE_CONFIRMED'',
                            endTime = Some (Date_now w), approveTx = None,
                            updates.approveTxHash = None, swapTx = None,
                            updates.swapTxHash = None\<rparr>)
            else ret None))"

definition waitForSwapConfirmations ::
  "world \<Rightarrow> string \<Rightarrow> string \<Rightarrow> 'a swap_scheme \<Rightarrow> updates option M" where
  "waitForSwapConfirmations w network walletId swap =
     catchTxNotFound
       (andThen (answer (chain_getTransactionByHash w (swap.swapTxHash swap))) (\<lambda>found.
        case found of
          None \<Rightarrow> ret None
        | Some t \<Rightarrow>
            if 0 < confirmations t
            then
              andThen (answer (getTransactionReceipt w (swap.swapTxHash swap))) (\<lambda>r.
              case r of
                None \<Rightarrow> throw TypeError
              | Some rcpt \<Rightarrow>
                  andThen (updateBalances network walletId [fromAsset swap]) (\<lambda>u.
                  ret (Some \<lparr>updates.status =
                               (if receiptStatus rcpt = 1 then ''SUCCESS'' else ''FAILED''),
                             endTime = Some (Date_now w), approveTx = None,
                             updates.approveTxHash = None, swapTx = None,
                             updates.swapTxHash = None\<rparr>)))
            else ret None))"

definition performNextSwapAction ::
  "world \<Rightarrow> string \<Rightarrow> string \<Rightarrow> 'a swap_scheme \<Rightarrow> updates option M" where
  "performNextSwapAction w network walletId swap =
     (if swap.status swap = ''WAITING_FOR_APPROVE_CONFIRMATIONS''
      then withInterval (waitForApproveConfirmations w network walletId swap)
      else if swap.status swap = ''APPROVE_CONFIRMED''
      then withLock network (fromAsset swap)
             (andThen (sendSwap w network walletId swap) (\<lambda>u. ret (Some u)))
      else if swap.status swap = ''WAITING_FOR_SWAP_CONFIRMATIONS''
      then withInterval (waitForSwapConfirmations w network walletId swap)
      else ret None)"

text \<open>The \<open>step\<close> column of the static table \<open>statuses\<close>.\<close>

definition statuses_step :: "string \<Rightarrow> nat option" where
  "statuses_step st =
     (if st = ''WAITING_FOR_APPROVE_CONFIRMATIONS'' then Some 0
      else if st = ''APPROVE_CONFIRMED'' then Some 1
      else if st = ''WAITING_FOR_SWAP_CONFIRMATIONS'' then Some 1
      else if st = ''SUCCESS'' then Some 2
      else if st = ''FAILED'' then Some 2
      else None)"

subsection \<open>Example data\<close>

text \<open>
  A world with the RSK assets, an open sale at the rate 500000 / 1000000, an allowance
  of 100 base units, a swap transaction with three confirmations and a reverted receipt.
\<close>

definition exampleWorld :: world where
  "exampleWorld =
     \<lparr>cryptoassets =
        [''SOV'' \<mapsto> \<lparr>chain = ''rsk'', decimals = 18, contractAddress = Some ''0xEFc78fc7''\<rparr>,
         ''ZERO'' \<mapsto> \<lparr>chain = ''rsk'', decimals = 18, contractAddress = Some ''0x00aa''\<rparr>,
         ''RBTC'' \<mapsto> \<lparr>chain = ''rsk'', decimals = 18, contractAddress = None\<rparr>,
         ''BTC'' \<mapsto> \<lparr>chain = ''bitcoin'', decimals = 8, contractAddress = None\<rparr>],
      chains = [''rsk'' \<mapsto> ''RBTC'', ''bitcoin'' \<mapsto> ''BTC''],
      ChainNetworks = [''rsk'' \<mapsto> [''mainnet'' \<mapsto> 30, ''testnet'' \<mapsto> 31]],
      isERC20 = (\<lambda>a. a = ''SOV'' \<or> a = ''ZERO''),
      rpcURL = ''https://rsk.example'',
      presaleAddress = ''0xPRESALE'',
      controllerAddress = ''0xc0'',
      presale_isClosed = Inr False,
      presale_PPM = Inr 1000000,
      presale_exchangeRate = Inr 500000,
      erc20_allowance = (\<lambda>token owner spender. Inr 100),
      getUnusedAddresses = (\<lambda>network walletId assets accountId. Inr [''0xA1'']),
      chain_sendTransaction = (\<lambda>d. Inr \<lparr>hash = ''0xh1'', confirmations = 0\<rparr>),
      chain_getTransactionByHash = (\<lambda>h. Inr (Some \<lparr>hash = ''0xh1'', confirmations = 3\<rparr>)),
      getTransactionReceipt = (\<lambda>h. Inr (Some \<lparr>receiptStatus = 0\<rparr>)),
      estimateGas = (\<lambda>r. Inr 50000),
      Date_now = 1650000000000\<rparr>"

definition emptyState :: state where
  "emptyState =
     \<lparr>apiCache = Map.empty, sendTransactionCalls = [], updateBalancesCalls = [],
      lockEvents = []\<rparr>"

definition exampleSwap :: "string \<Rightarrow> swap" where
  "exampleSwap st =
     \<lparr>fromAsset = ''SOV'', toAsset = ''ZERO'', fromAmount = BN 100, toAmount = BN 50,
      fee = Some 5, fromAccountId = Some ''acc1'', toAccountId = Some ''acc1'',
      status = st, approveTxHash = Some ''0xh0'', swapTxHash = Some ''0xh1''\<rparr>"

section \<open>Basic facts\<close>

lemma getApi_cached:
  "getApi w network asset s = (Inr api, s1) \<Longrightarrow> getApi w network asset s1 = (Inr api, s1)"
  by (auto simp add: getApi_def split: option.splits)

lemma getApi_calls:
  "getApi w network asset s = (r, s1) \<Longrightarrow> sendTransactionCalls s1 = sendTransactionCalls s"
  by (auto simp add: getApi_def split: option.splits)

lemma requiresApproval_calls:
  "requiresApproval w network walletId q s = (r, s1) \<Longrightarrow>
   sendTransactionCalls s1 = sendTransactionCalls s"
  by (auto simp add: requiresApproval_def andThen_def answer_def ret_def throw_def
      split: if_splits option.splits prod.splits sum.splits list.splits dest: getApi_calls)

lemma buildApprovalTx_calls:
  "buildApprovalTx w network walletId q s = (r, s1) \<Longrightarrow>
   sendTransactionCalls s1 = sendTransactionCalls s"
  by (auto simp add: buildApprovalTx_def andThen_def answer_def ret_def throw_def
      split: if_splits option.splits prod.splits sum.splits list.splits dest: getApi_calls)

lemma round_half_up_exact:
  assumes "x * 10 ^ dp = of_int k"
  shows "round_half_up dp x = x"
proof -
  have "\<bar>x\<bar> * 10 ^ dp = \<bar>x * 10 ^ dp\<bar>"
    by (simp add: abs_mult)
  hence "\<bar>x\<bar> * 10 ^ dp = of_int \<bar>k\<bar>"
    by (simp add: assms)
  moreover have "\<lfloor>rat_of_int \<bar>k\<bar> + 1 / 2\<rfloor> = \<bar>k\<bar>"
    by (rule floor_unique) simp_all
  ultimately have "\<lfloor>\<bar>x\<bar> * 10 ^ dp + 1 / 2\<rfloor> = \<bar>k\<bar>"
    by simp
  hence "round_half_up dp x = sgn x * (\<bar>x\<bar> * 10 ^ dp) / 10 ^ dp"
    using \<open>\<bar>x\<bar> * 10 ^ dp = of_int \<bar>k\<bar>\<close> by (simp add: round_half_up_def)
  also have "\<dots> = sgn x * \<bar>x\<bar>"
    by simp
  also have "\<dots> = x"
    by (rule sgn_mult_abs)
  finally show ?thesis .
qed

lemma feesLoop_known:
  "cryptoassets w nativeAsset = Some nativeInfo \<Longrightarrow>
   feesLoop w nativeAsset gasLimit feePrices fees =
     Inr (\<lambda>p. if p \<in> set feePrices
              then Some (unitToCurrency nativeInfo
                           (BN (of_nat gasLimit * (11 / 10) * (p * 1000000000))))
              else fees p)"
proof (induction feePrices arbitrary: fees)
  case Nil
  then show ?case by simp
next
  case (Cons p ps)
  show ?case
    using Cons.prems by (auto simp add: Cons.IH [OF Cons.prems] Let_def fun_eq_iff)
qed

lemma sendSwap_status:
  "sendSwap w network walletId q s = (Inr u, s') \<Longrightarrow>
   updates.status u = ''WAITING_FOR_SWAP_CONFIRMATIONS''"
  by (auto simp add: sendSwap_def andThen_def ret_def split: prod.splits sum.splits)

lemma waitForApproveConfirmations_status:
  "waitForApproveConfirmations w network walletId swap s = (Inr (Some u), s') \<Longrightarrow>
   updates.status u = ''APPROVE_CONFIRMED''"
  by (auto simp add: waitForApproveConfirmations_def catchTxNotFound_def andThen_def answer_def
      ret_def split: prod.splits sum.splits option.splits if_splits)

lemma waitForSwapConfirmations_status:
  "waitForSwapConfirmations w network walletId swap s = (Inr (Some u), s') \<Longrightarrow>
   updates.status u = ''SUCCESS'' \<or> updates.status u = ''FAILED''"
  by (auto simp add: waitForSwapConfirmations_def catchTxNotFound_def andThen_def answer_def
      ret_def throw_def updateBalances_def split: prod.splits sum.splits option.splits if_splits)

lemma withLock_result:
  "fst (withLock network asset func s) =
   fst (func (s\<lparr>lockEvents := lockEvents s @ [Acquire network asset]\<rparr>))"
  by (simp add: withLock_def split: prod.splits)




subsection \<open>The example data evaluated\<close>

lemma exampleSwap_simps:
  "fromAsset (exampleSwap st) = ''SOV''" "toAsset (exampleSwap st) = ''ZERO''"
  "fromAmount (exampleSwap st) = BN 100" "toAccountId (exampleSwap st) = Some ''acc1''"
  "fromAccountId (exampleSwap st) = Some ''acc1''" "fee (exampleSwap st) = Some 5"
  "swap.status (exampleSwap st) = st" "swap.approveTxHash (exampleSwap st) = Some ''0xh0''"
  "swap.swapTxHash (exampleSwap st) = Some ''0xh1''"
  by (simp_all add: exampleSwap_def)

lemma exampleWorld_simps:
  "cryptoassets exampleWorld ''SOV'' = Some \<lparr>chain = ''rsk'', decimals = 18, contractAddress = Some ''0xEFc78fc7''\<rparr>"
  "cryptoassets exampleWorld ''ZERO'' = Some \<lparr>chain = ''rsk'', decimals = 18, contractAddress = Some ''0x00aa''\<rparr>"
  "cryptoassets exampleWorld ''RBTC'' = Some \<lparr>chain = ''rsk'', decimals = 18, contractAddress = None\<rparr>"
  "cryptoassets exampleWorld ''BTC'' = Some \<lparr>chain = ''bitcoin'', decimals = 8, contractAddress = None\<rparr>"
  "cryptoassets exampleWorld ''NOPE'' = None"
  "world.chains exampleWorld ''rsk'' = Some ''RBTC''"
  "isERC20 exampleWorld a = (a = ''SOV'' \<or> a = ''ZERO'')"
  "presaleAddress exampleWorld = ''0xPRESALE''"
  "controllerAddress exampleWorld = ''0xc0''"
  "presale_isClosed exampleWorld = Inr False"
  "presale_PPM exampleWorld = Inr 1000000"
  "presale_exchangeRate exampleWorld = Inr 500000"
  "erc20_allowance exampleWorld t ow sp = Inr 100"
  "getUnusedAddresses exampleWorld n wid as acc = Inr [''0xA1'']"
  "chain_sendTransaction exampleWorld d = Inr \<lparr>hash = ''0xh1'', confirmations = 0\<rparr>"
  "chain_getTransactionByHash exampleWorld h = Inr (Some \<lparr>hash = ''0xh1'', confirmations = 3\<rparr>)"
  "getTransactionReceipt exampleWorld h = Inr (Some \<lparr>receiptStatus = 0\<rparr>)"
  "estimateGas exampleWorld r = Inr 50000"
  "Date_now exampleWorld = 1650000000000"
  by (simp_all add: exampleWorld_def)

lemma getApi_example:
  "getApi exampleWorld ''mainnet'' asset emptyState =
     (if asset = ''SOV'' \<or> asset = ''ZERO'' \<or> asset = ''RBTC''
      then (Inr ''https://rsk.example'',
            emptyState\<lparr>apiCache := [30 \<mapsto> ''https://rsk.example'']\<rparr>)
      else (Inl TypeError, emptyState))"
  by (simp add: getApi_def exampleWorld_def emptyState_def)

lemma checkSaleClosed_example:
  "checkSaleClosed (exampleWorld\<lparr>presale_isClosed := r\<rparr>) ''mainnet'' emptyState =
     (r, emptyState\<lparr>apiCache := [30 \<mapsto> ''https://rsk.example'']\<rparr>)"
  by (simp add: checkSaleClosed_def getApi_def andThen_def answer_def exampleWorld_def
      emptyState_def split: sum.splits)

lemma round_example: "round_half_up DECIMAL_PLACES (1 / 2) = 1 / 2"
  unfolding DECIMAL_PLACES_def by code_simp

lemma round_third:
  "round_half_up DECIMAL_PLACES (1 / 3) = 33333333333333333333 / 100000000000000000000"
  unfolding DECIMAL_PLACES_def by code_simp


lemma toLowerCase_presale: "toLowerCase ''0xPRESALE'' = ''0xpresale''"
  by code_simp

lemma round_fees:
  "round_half_up DECIMAL_PLACES (33 / 8000) = 33 / 8000"
  "round_half_up DECIMAL_PLACES (33 / 4000) = 33 / 4000"
  "round_half_up DECIMAL_PLACES (11 / 2500) = 11 / 2500"
  "round_half_up DECIMAL_PLACES (11 / 1250) = 11 / 1250"
  unfolding DECIMAL_PLACES_def by code_simp+

lemma requiresApproval_example:
  "requiresApproval exampleWorld ''mainnet'' ''w1''
     ((exampleSwap ''x'')\<lparr>fromAmount := BN (of_int n)\<rparr>) emptyState =
     (Inr (\<not> n \<le> 100), emptyState\<lparr>apiCache := [30 \<mapsto> ''https://rsk.example'']\<rparr>)"
  by (simp add: requiresApproval_def andThen_def answer_def ret_def ethers_BigNumber_from_def
      exampleWorld_simps exampleSwap_simps getApi_example)

lemma buildApprovalTx_example:
  "buildApprovalTx exampleWorld ''mainnet'' ''w1''
     ((exampleSwap ''x'')\<lparr>fromAmount := BN 101\<rparr>)
     (emptyState\<lparr>apiCache := [30 \<mapsto> ''https://rsk.example'']\<rparr>) =
     (Inr \<lparr>tx_from = Some ''0xA1'', tx_to = Some ''0xEFc78fc7'', tx_value = BN 0,
            tx_data = Approve ''0xpresale'' 101, tx_fee = Some 5\<rparr>,
      emptyState\<lparr>apiCache := [30 \<mapsto> ''https://rsk.example'']\<rparr>)"
  by (simp add: buildApprovalTx_def getApi_def andThen_def answer_def ret_def
      ethers_BigNumber_from_def encode_uint256_def exampleWorld_def exampleSwap_def
      emptyState_def toLowerCase_presale)

section \<open>The claims\<close>

subsection \<open>C1: the state machine only moves forward\<close>

text \<open>
  C1. \<open>performNextSwapAction\<close> advances the status along
  WAITING_FOR_APPROVE_CONFIRMATIONS, APPROVE_CONFIRMED, WAITING_FOR_SWAP_CONFIRMATIONS,
  then SUCCESS or FAILED. Whenever it returns: in WAITING_FOR_APPROVE_CONFIRMATIONS the
  result is no update or an update to APPROVE_CONFIRMED; in APPROVE_CONFIRMED it is an
  update to WAITING_FOR_SWAP_CONFIRMATIONS; in WAITING_FOR_SWAP_CONFIRMATIONS it is no
  update or an update to SUCCESS or FAILED; in SUCCESS and FAILED nothing is done, the
  state is left as it was and no update is returned. Every returned update names a status
  other than the current one whose \<open>step\<close> in the table \<open>statuses\<close> is not below the
  current step, so the status never goes back. (A call that throws returns no update at
  all.)
\<close>

theorem performNextSwapAction_forward:
  "(swap.status swap = ''WAITING_FOR_APPROVE_CONFIRMATIONS'' \<longrightarrow>
      (\<forall>u. fst (performNextSwapAction w network walletId swap s) = Inr (Some u) \<longrightarrow>
           updates.status u = ''APPROVE_CONFIRMED'')) \<and>
   (swap.status swap = ''APPROVE_CONFIRMED'' \<longrightarrow>
      (\<forall>r. fst (performNextSwapAction w network walletId swap s) = Inr r \<longrightarrow>
           (\<exists>u. r = Some u \<and> updates.status u = ''WAITING_FOR_SWAP_CONFIRMATIONS''))) \<and>
   (swap.status swap = ''WAITING_FOR_SWAP_CONFIRMATIONS'' \<longrightarrow>
      (\<forall>u. fst (performNextSwapAction w network walletId swap s) = Inr (Some u) \<longrightarrow>
           updates.status u = ''SUCCESS'' \<or> updates.status u = ''FAILED'')) \<and>
   (swap.status swap = ''SUCCESS'' \<or> swap.status swap = ''FAILED'' \<longrightarrow>
      performNextSwapAction w network walletId swap s = (Inr None, s)) \<and>
   (\<forall>u. fst (performNextSwapAction w network walletId swap s) = Inr (Some u) \<longrightarrow>
        updates.status u \<noteq> swap.status swap \<and>
        (\<exists>a b. statuses_step (swap.status swap) = Some a \<and>
               statuses_step (updates.status u) = Some b \<and> a \<le> b))"
proof -
  have a: "updates.status u = ''APPROVE_CONFIRMED''"
    if "swap.status swap = ''WAITING_FOR_APPROVE_CONFIRMATIONS''"
      and "fst (performNextSwapAction w network walletId swap s) = Inr (Some u)" for u
    using that waitForApproveConfirmations_status [of w network walletId swap s u]
    by (cases "waitForApproveConfirmations w network walletId swap s")
       (simp add: performNextSwapAction_def withInterval_def)
  have b: "\<exists>u. r = Some u \<and> updates.status u = ''WAITING_FOR_SWAP_CONFIRMATIONS''"
    if "swap.status swap = ''APPROVE_CONFIRMED''"
      and "fst (performNextSwapAction w network walletId swap s) = Inr r" for r
    using that sendSwap_status [of w network walletId swap]
    by (auto simp add: performNextSwapAction_def withLock_result andThen_def ret_def
        split: prod.splits sum.splits)
  have c: "updates.status u = ''SUCCESS'' \<or> updates.status u = ''FAILED''"
    if "swap.status swap = ''WAITING_FOR_SWAP_CONFIRMATIONS''"
      and "fst (performNextSwapAction w network walletId swap s) = Inr (Some u)" for u
    using that waitForSwapConfirmations_status [of w network walletId swap s u]
    by (cases "waitForSwapConfirmations w network walletId swap s")
       (simp add: performNextSwapAction_def withInterval_def)
  have d: "performNextSwapAction w network walletId swap s = (Inr None, s)"
    if "swap.status swap = ''SUCCESS'' \<or> swap.status swap = ''FAILED''"
    using that by (auto simp add: performNextSwapAction_def ret_def)
  have other: "swap.status swap = ''WAITING_FOR_APPROVE_CONFIRMATIONS'' \<or>
               swap.status swap = ''APPROVE_CONFIRMED'' \<or>
               swap.status swap = ''WAITING_FOR_SWAP_CONFIRMATIONS''"
    if "fst (performNextSwapAction w network walletId swap s) = Inr (Some u)" for u
    using that by (auto simp add: performNextSwapAction_def ret_def split: if_splits)
  have e: "updates.status u \<noteq> swap.status swap \<and>
           (\<exists>a b. statuses_step (swap.status swap) = Some a \<and>
                  statuses_step (updates.status u) = Some b \<and> a \<le> b)"
    if r: "fst (performNextSwapAction w network walletId swap s) = Inr (Some u)" for u
    using other [OF r] a [OF _ r] b [OF _ r] c [OF _ r]
    by (auto simp add: statuses_step_def)
  show ?thesis
    using a b c d e by blast
qed

text \<open>
  One run from each state of the example swap: a confirmed approval, a submitted swap, a
  reverted swap, and a finished swap that is left alone.
\<close>

theorem performNextSwapAction_forward_witness:
  "fst (performNextSwapAction exampleWorld ''mainnet'' ''w1''
          (exampleSwap ''WAITING_FOR_APPROVE_CONFIRMATIONS'') emptyState) =
     Inr (Some \<lparr>updates.status = ''APPROVE_CONFIRMED'', endTime = Some 1650000000000,
                 approveTx = None, updates.approveTxHash = None, swapTx = None,
                 updates.swapTxHash = None\<rparr>) \<and>
   fst (performNextSwapAction exampleWorld ''mainnet'' ''w1''
          (exampleSwap ''APPROVE_CONFIRMED'') emptyState) =
     Inr (Some \<lparr>updates.status = ''WAITING_FOR_SWAP_CONFIRMATIONS'', endTime = None,
                 approveTx = None, updates.approveTxHash = None,
                 swapTx = Some \<lparr>hash = ''0xh1'', confirmations = 0\<rparr>,
                 updates.swapTxHash = Some ''0xh1''\<rparr>) \<and>
   fst (performNextSwapAction exampleWorld ''mainnet'' ''w1''
          (exampleSwap ''WAITING_FOR_SWAP_CONFIRMATIONS'') emptyState) =
     Inr (Some \<lparr>updates.status = ''FAILED'', endTime = Some 1650000000000,
                 approveTx = None, updates.approveTxHash = None, swapTx = None,
                 updates.swapTxHash = None\<rparr>) \<and>
   performNextSwapAction exampleWorld ''mainnet'' ''w1'' (exampleSwap ''SUCCESS'') emptyState =
     (Inr None, emptyState) \<and>
   statuses_step ''APPROVE_CONFIRMED'' = Some 1 \<and>
   statuses_step ''WAITING_FOR_SWAP_CONFIRMATIONS'' = Some 1"
proof -
  let ?run = "\<lambda>st. fst (performNextSwapAction exampleWorld ''mainnet'' ''w1'' (exampleSwap st)
                           emptyState)"
  have r1: "?run ''WAITING_FOR_APPROVE_CONFIRMATIONS'' =
     Inr (Some \<lparr>updates.status = ''APPROVE_CONFIRMED'', endTime = Some 1650000000000,
                 approveTx = None, updates.approveTxHash = None, swapTx = None,
                 updates.swapTxHash = None\<rparr>)"
    by (simp add: performNextSwapAction_def withInterval_def waitForApproveConfirmations_def
        catchTxNotFound_def andThen_def answer_def ret_def exampleWorld_simps exampleSwap_simps)
  have r2: "?run ''APPROVE_CONFIRMED'' =
     Inr (Some \<lparr>updates.status = ''WAITING_FOR_SWAP_CONFIRMATIONS'', endTime = None,
                 approveTx = None, updates.approveTxHash = None,
                 swapTx = Some \<lparr>hash = ''0xh1'', confirmations = 0\<rparr>,
                 updates.swapTxHash = Some ''0xh1''\<rparr>)"
    by (simp add: performNextSwapAction_def withLock_def sendSwap_def buildSwapTx_def
        getApi_def sendTransaction_def ethers_BigNumber_from_def encode_uint256_def
        andThen_def answer_def ret_def exampleWorld_simps exampleSwap_simps emptyState_def
        exampleWorld_def)
  have r3: "?run ''WAITING_FOR_SWAP_CONFIRMATIONS'' =
     Inr (Some \<lparr>updates.status = ''FAILED'', endTime = Some 1650000000000,
                 approveTx = None, updates.approveTxHash = None, swapTx = None,
                 updates.swapTxHash = None\<rparr>)"
    by (simp add: performNextSwapAction_def withInterval_def waitForSwapConfirmations_def
        catchTxNotFound_def updateBalances_def andThen_def answer_def ret_def
        exampleWorld_simps exampleSwap_simps)
  note fwd = performNextSwapAction_forward [of _ exampleWorld "''mainnet''" "''w1''" emptyState]
  have r4: "performNextSwapAction exampleWorld ''mainnet'' ''w1'' (exampleSwap ''SUCCESS'')
              emptyState = (Inr None, emptyState)"
    using fwd [of "exampleSwap ''SUCCESS''"] by (simp add: exampleSwap_simps)
  have s2: "statuses_step ''APPROVE_CONFIRMED'' = Some 1 \<and>
            statuses_step ''WAITING_FOR_SWAP_CONFIRMATIONS'' = Some 1"
    using fwd [of "exampleSwap ''APPROVE_CONFIRMED''"] r2
    by (simp add: exampleSwap_simps statuses_step_def)
  show ?thesis
    using r1 r2 r3 r4 s2 by simp
qed

subsection \<open>C2: no quote\<close>

text \<open>
  C2, as amended. \<open>getQuote\<close> reads \<open>fromInfo.chain\<close> first and \<open>toInfo.chain\<close> only when
  the source asset is on rsk. For every input whose source asset is an entry of the asset
  table and whose target asset is an entry too whenever the source asset is on rsk: if
  the two assets are not on the same chain (a target that is not in the table is on no
  chain), or the pair is not (SOV, ZERO), or \<open>amount \<le> 0\<close>, or the sale contract answers
  that the sale is closed, then \<open>getQuote\<close> returns null and does not throw. On every
  other input (the source asset is not in the table, or it is on rsk and the target asset
  is not in the table) \<open>getQuote\<close> throws a TypeError and changes nothing.
\<close>

theorem getQuote_null:
  "(cryptoassets w from = Some fromInfo \<and>
    (chain fromInfo = ''rsk'' \<longrightarrow> cryptoassets w to \<noteq> None) \<and>
    (map_option chain (cryptoassets w to) \<noteq> Some (chain fromInfo) \<or>
     (from, to) \<noteq> (''SOV'', ''ZERO'') \<or> amount \<le> 0 \<or>
     fst (checkSaleClosed w network s) = Inr True)
    \<longrightarrow> fst (getQuote w network from to amount s) = Inr None) \<and>
   (cryptoassets w from = None \<or>
    (\<exists>info. cryptoassets w from = Some info \<and> chain info = ''rsk'' \<and>
            cryptoassets w to = None)
    \<longrightarrow> getQuote w network from to amount s = (Inl TypeError, s))"
proof -
  have null: "fst (getQuote w network from to amount s) = Inr None"
    if known: "cryptoassets w from = Some fromInfo"
      and target: "chain fromInfo = ''rsk'' \<longrightarrow> cryptoassets w to \<noteq> None"
      and reason: "map_option chain (cryptoassets w to) \<noteq> Some (chain fromInfo) \<or>
        (from, to) \<noteq> (''SOV'', ''ZERO'') \<or> amount \<le> 0 \<or>
        fst (checkSaleClosed w network s) = Inr True"
  proof (cases "chain fromInfo = ''rsk''")
    case False
    then show ?thesis
      using known by (simp add: getQuote_def ret_def)
  next
    case True
    with target obtain toInfo where to: "cryptoassets w to = Some toInfo"
      by auto
    show ?thesis
    proof (cases "chain toInfo = ''rsk'' \<and> 0 < amount \<and> from = ''SOV'' \<and> to = ''ZERO''")
      case False
      then show ?thesis
        using known to True by (auto simp add: getQuote_def ret_def)
    next
      case supported: True
      with reason True to have "fst (checkSaleClosed w network s) = Inr True"
        by auto
      then obtain s1 where "checkSaleClosed w network s = (Inr True, s1)"
        by (cases "checkSaleClosed w network s") simp
      then show ?thesis
        using known to True supported by (simp add: getQuote_def andThen_def ret_def)
    qed
  qed
  have throws: "getQuote w network from to amount s = (Inl TypeError, s)"
    if "cryptoassets w from = None \<or>
        (\<exists>info. cryptoassets w from = Some info \<and> chain info = ''rsk'' \<and>
                cryptoassets w to = None)"
    using that by (auto simp add: getQuote_def throw_def)
  show ?thesis
    using null throws by blast
qed

text \<open>
  Five inputs that return null (assets on different chains, the pair reversed, a zero
  amount, a closed sale, a source off rsk with a target that is not in the table) and the
  two kinds of input that throw.
\<close>

theorem getQuote_null_witness:
  "fst (getQuote exampleWorld ''mainnet'' ''SOV'' ''BTC'' 1 emptyState) = Inr None \<and>
   fst (getQuote exampleWorld ''mainnet'' ''ZERO'' ''SOV'' 1 emptyState) = Inr None \<and>
   fst (getQuote exampleWorld ''mainnet'' ''SOV'' ''ZERO'' 0 emptyState) = Inr None \<and>
   fst (getQuote (exampleWorld\<lparr>presale_isClosed := Inr True\<rparr>) ''mainnet'' ''SOV'' ''ZERO'' 1
          emptyState) = Inr None \<and>
   fst (getQuote exampleWorld ''mainnet'' ''BTC'' ''NOPE'' 1 emptyState) = Inr None \<and>
   getQuote exampleWorld ''mainnet'' ''NOPE'' ''BTC'' 1 emptyState = (Inl TypeError, emptyState) \<and>
   getQuote exampleWorld ''mainnet'' ''ZERO'' ''NOPE'' 1 emptyState = (Inl TypeError, emptyState)"
proof -
  let ?sov = "\<lparr>chain = ''rsk'', decimals = 18, contractAddress = Some ''0xEFc78fc7''\<rparr>"
  let ?zero = "\<lparr>chain = ''rsk'', decimals = 18, contractAddress = Some ''0x00aa''\<rparr>"
  let ?btc = "\<lparr>chain = ''bitcoin'', decimals = 8, contractAddress = None\<rparr>"
  have 1: "fst (getQuote exampleWorld ''mainnet'' ''SOV'' ''BTC'' 1 emptyState) = Inr None"
    using getQuote_null [of exampleWorld "''SOV''" ?sov "''BTC''" 1 "''mainnet''" emptyState]
    by (simp add: exampleWorld_simps)
  have 2: "fst (getQuote exampleWorld ''mainnet'' ''ZERO'' ''SOV'' 1 emptyState) = Inr None"
    using getQuote_null [of exampleWorld "''ZERO''" ?zero "''SOV''" 1 "''mainnet''" emptyState]
    by (simp add: exampleWorld_simps)
  have 3: "fst (getQuote exampleWorld ''mainnet'' ''SOV'' ''ZERO'' 0 emptyState) = Inr None"
    using getQuote_null [of exampleWorld "''SOV''" ?sov "''ZERO''" 0 "''mainnet''" emptyState]
    by (simp add: exampleWorld_simps)
  have 4: "fst (getQuote (exampleWorld\<lparr>presale_isClosed := Inr True\<rparr>) ''mainnet'' ''SOV''
                  ''ZERO'' 1 emptyState) = Inr None"
    using getQuote_null [of "exampleWorld\<lparr>presale_isClosed := Inr True\<rparr>" "''SOV''" ?sov
        "''ZERO''" 1 "''mainnet''" emptyState]
    by (simp add: exampleWorld_simps checkSaleClosed_example)
  have 5: "fst (getQuote exampleWorld ''mainnet'' ''BTC'' ''NOPE'' 1 emptyState) = Inr None"
    using getQuote_null [of exampleWorld "''BTC''" ?btc "''NOPE''" 1 "''mainnet''" emptyState]
    by (simp add: exampleWorld_simps)
  have 6: "getQuote exampleWorld ''mainnet'' ''NOPE'' ''BTC'' 1 emptyState =
             (Inl TypeError, emptyState)"
    using getQuote_null [of exampleWorld "''NOPE''" ?btc "''BTC''" 1 "''mainnet''" emptyState]
    by (simp add: exampleWorld_simps)
  have 7: "getQuote exampleWorld ''mainnet'' ''ZERO'' ''NOPE'' 1 emptyState =
             (Inl TypeError, emptyState)"
    using getQuote_null [of exampleWorld "''ZERO''" ?zero "''NOPE''" 1 "''mainnet''" emptyState]
    by (simp add: exampleWorld_simps)
  show ?thesis
    using 1 2 3 4 5 6 7 by simp
qed

text \<open>
  C2 as stated, for every input, fails twice. For a source asset that is not in the table
  the read of \<open>fromInfo.chain\<close> throws a TypeError, although the pair is not the supported
  one and the amount is negative. For the source SOV and a target that is not in the
  table the read of \<open>toInfo.chain\<close> throws, although the pair is not the supported one.
\<close>

theorem getQuote_unknown_asset_throws:
  "(''NOPE'', ''ZERO'') \<noteq> (''SOV'', ''ZERO'') \<and> (- 1 :: rat) \<le> 0 \<and>
   getQuote exampleWorld ''mainnet'' ''NOPE'' ''ZERO'' (- 1) emptyState =
     (Inl (JsError ''TypeError'' ''Cannot read properties of undefined''), emptyState) \<and>
   (''SOV'', ''NOPE'') \<noteq> (''SOV'', ''ZERO'') \<and>
   getQuote exampleWorld ''mainnet'' ''SOV'' ''NOPE'' 1 emptyState =
     (Inl (JsError ''TypeError'' ''Cannot read properties of undefined''), emptyState)"
  by (simp add: getQuote_def throw_def TypeError_def exampleWorld_simps)

subsection \<open>C3: rate and output amount\<close>

text \<open>
  C3, as amended. When the pair is supported, the sale is open and \<open>PPM\<close> is not zero,
  the rate is \<open>exchangeRate / PPM\<close> rounded half up to \<open>DECIMAL_PLACES = 20\<close> decimal
  places (the division of bignumber.js), \<open>fromAmount\<close> is \<open>amount * 10 ^ decimals\<close> and
  \<open>toAmount\<close> is \<open>fromAmount\<close> times that rate, both products exact. The rate is exactly
  \<open>exchangeRate / PPM\<close> whenever \<open>PPM\<close> divides \<open>exchangeRate * 10 ^ 20\<close>, as it does for
  \<open>PPM = 1000000\<close>.
\<close>

theorem getQuote_rate:
  assumes "cryptoassets w ''SOV'' = Some fromInfo" and "chain fromInfo = ''rsk''"
    and "cryptoassets w ''ZERO'' = Some toInfo" and "chain toInfo = ''rsk''"
    and "0 < amount"
    and "checkSaleClosed w network s = (Inr False, s1)"
    and "presale_PPM w = Inr PPM" and "presale_exchangeRate w = Inr exchangeRate"
    and "PPM \<noteq> 0"
  shows "getDepositRate w network s1 =
           (Inr (BN (round_half_up DECIMAL_PLACES (of_nat exchangeRate / of_nat PPM))), s1) \<and>
         getQuote w network ''SOV'' ''ZERO'' amount s =
           (Inr (Some \<lparr>fromAsset = ''SOV'', toAsset = ''ZERO'',
                        fromAmount = BN (amount * 10 ^ decimals fromInfo),
                        toAmount = BN (amount * 10 ^ decimals fromInfo *
                          round_half_up DECIMAL_PLACES (of_nat exchangeRate / of_nat PPM)),
                        fee = None, fromAccountId = None, toAccountId = None\<rparr>), s1) \<and>
         (PPM dvd exchangeRate * 10 ^ DECIMAL_PLACES \<longrightarrow>
            round_half_up DECIMAL_PLACES (of_nat exchangeRate / of_nat PPM) =
            of_nat exchangeRate / of_nat PPM)"
proof -
  obtain api where api: "getApi w network ''ZERO'' s = (Inr api, s1)"
    using assms(6)
    by (auto simp add: checkSaleClosed_def andThen_def answer_def split: prod.splits sum.splits)
  have rate: "getDepositRate w network s1 =
           (Inr (BN (round_half_up DECIMAL_PLACES (of_nat exchangeRate / of_nat PPM))), s1)"
    using getApi_cached [OF api] assms(7,8,9)
    by (simp add: getDepositRate_def andThen_def answer_def ret_def)
  have quote: "getQuote w network ''SOV'' ''ZERO'' amount s =
           (Inr (Some \<lparr>fromAsset = ''SOV'', toAsset = ''ZERO'',
                        fromAmount = BN (amount * 10 ^ decimals fromInfo),
                        toAmount = BN (amount * 10 ^ decimals fromInfo *
                          round_half_up DECIMAL_PLACES (of_nat exchangeRate / of_nat PPM)),
                        fee = None, fromAccountId = None, toAccountId = None\<rparr>), s1)"
    using assms(1-6) rate
    by (simp add: getQuote_def andThen_def ret_def currencyToUnit_def)
  have exact: "round_half_up DECIMAL_PLACES (of_nat exchangeRate / of_nat PPM) =
            of_nat exchangeRate / of_nat PPM"
    if "PPM dvd exchangeRate * 10 ^ DECIMAL_PLACES"
  proof -
    from that obtain k where k: "exchangeRate * 10 ^ DECIMAL_PLACES = PPM * k"
      by (auto simp add: dvd_def)
    have "(of_nat exchangeRate / of_nat PPM) * 10 ^ DECIMAL_PLACES =
          (of_nat (exchangeRate * 10 ^ DECIMAL_PLACES) / of_nat PPM :: rat)"
      by simp
    also have "\<dots> = of_int (int k)"
      using assms(9) by (simp add: k)
    finally show ?thesis
      by (rule round_half_up_exact)
  qed
  show ?thesis
    using rate quote exact by blast
qed

text \<open>
  The example of the specification: \<open>PPM = 1000000\<close>, \<open>exchangeRate = 500000\<close> and 100
  base units give the rate 1/2 and 50 base units.
\<close>

theorem getQuote_rate_witness:
  "getDepositRate exampleWorld ''mainnet''
     (emptyState\<lparr>apiCache := [30 \<mapsto> ''https://rsk.example'']\<rparr>) =
     (Inr (BN (1 / 2)), emptyState\<lparr>apiCache := [30 \<mapsto> ''https://rsk.example'']\<rparr>) \<and>
   getQuote exampleWorld ''mainnet'' ''SOV'' ''ZERO'' (100 / 10 ^ 18) emptyState =
     (Inr (Some \<lparr>fromAsset = ''SOV'', toAsset = ''ZERO'', fromAmount = BN 100,
                  toAmount = BN 50, fee = None, fromAccountId = None, toAccountId = None\<rparr>),
      emptyState\<lparr>apiCache := [30 \<mapsto> ''https://rsk.example'']\<rparr>)"
proof -
  have closed: "checkSaleClosed exampleWorld ''mainnet'' emptyState =
     (Inr False, emptyState\<lparr>apiCache := [30 \<mapsto> ''https://rsk.example'']\<rparr>)"
    using checkSaleClosed_example [of "Inr False"] by (simp add: exampleWorld_def)
  have pos: "(0::rat) < 100 / 10 ^ 18"
    by simp
  have nz: "(1000000::nat) \<noteq> 0"
    by simp
  show ?thesis
    using getQuote_rate [OF exampleWorld_simps(1) _ exampleWorld_simps(2) _ pos closed
        exampleWorld_simps(11) exampleWorld_simps(12) nz]
    by (simp add: round_example)
qed

text \<open>
  C3 as stated, with no rounding, fails for \<open>PPM = 3\<close> and \<open>exchangeRate = 1\<close>: 3 base
  units give 0.99999999999999999999 and not \<open>3 * (1 / 3) = 1\<close>.
\<close>

theorem getQuote_division_rounds:
  "getQuote (exampleWorld\<lparr>presale_PPM := Inr 3, presale_exchangeRate := Inr 1\<rparr>)
     ''mainnet'' ''SOV'' ''ZERO'' (3 / 10 ^ 18) emptyState =
     (Inr (Some \<lparr>fromAsset = ''SOV'', toAsset = ''ZERO'', fromAmount = BN 3,
                  toAmount = BN (99999999999999999999 / 100000000000000000000),
                  fee = None, fromAccountId = None, toAccountId = None\<rparr>),
      emptyState\<lparr>apiCache := [30 \<mapsto> ''https://rsk.example'']\<rparr>) \<and>
   (99999999999999999999 / 100000000000000000000 :: rat) \<noteq> 3 * (1 / 3)"
  by (simp add: getQuote_def checkSaleClosed_def getDepositRate_def getApi_def andThen_def
      answer_def ret_def currencyToUnit_def exampleWorld_def emptyState_def round_third)

subsection \<open>C4: when an approval is required\<close>

text \<open>
  C4. \<open>requiresApproval\<close> returns false for every source asset that is not an ERC20
  token. For a token, once the allowance granted to the presale contract has been read
  and the requested amount is an integer, it returns false if and only if the allowance
  is at least the requested amount; with equal allowance and amount it returns false.
\<close>

theorem requiresApproval_allowance:
  "(\<not> isERC20 w (fromAsset q) \<longrightarrow>
      requiresApproval w network walletId q s = (Inr False, s)) \<and>
   (isERC20 w (fromAsset q) \<and>
    cryptoassets w (fromAsset q) = Some fromInfo \<and>
    contractAddress fromInfo = Some tokenAddress \<and>
    getApi w network (fromAsset q) s = (Inr api, s1) \<and>
    getUnusedAddresses w network walletId [fromAsset q] (toAccountId q) = Inr (fromAddress # rest) \<and>
    erc20_allowance w (toLowerCase tokenAddress) (toLowerCase fromAddress)
      (toLowerCase (presaleAddress w)) = Inr allowance \<and>
    fromAmount q = BN (of_int requestedAmount) \<longrightarrow>
      requiresApproval w network walletId q s = (Inr (\<not> requestedAmount \<le> int allowance), s1) \<and>
      (requestedAmount = int allowance \<longrightarrow>
         requiresApproval w network walletId q s = (Inr False, s1)))"
  by (simp add: requiresApproval_def andThen_def answer_def ret_def ethers_BigNumber_from_def)

text \<open>
  A native source asset, an allowance equal to the amount (100 and 100), and an allowance
  one unit short (100 and 101).
\<close>

theorem requiresApproval_allowance_witness:
  "requiresApproval exampleWorld ''mainnet'' ''w1''
     ((exampleSwap ''x'')\<lparr>fromAsset := ''RBTC''\<rparr>) emptyState = (Inr False, emptyState) \<and>
   requiresApproval exampleWorld ''mainnet'' ''w1'' (exampleSwap ''x'') emptyState =
     (Inr False, emptyState\<lparr>apiCache := [30 \<mapsto> ''https://rsk.example'']\<rparr>) \<and>
   requiresApproval exampleWorld ''mainnet'' ''w1''
     ((exampleSwap ''x'')\<lparr>fromAmount := BN 101\<rparr>) emptyState =
     (Inr True, emptyState\<lparr>apiCache := [30 \<mapsto> ''https://rsk.example'']\<rparr>)"
proof -
  note ra = requiresApproval_allowance [of exampleWorld _ "''mainnet''" "''w1''" emptyState
      "\<lparr>chain = ''rsk'', decimals = 18, contractAddress = Some ''0xEFc78fc7''\<rparr>" "''0xEFc78fc7''"
      "''https://rsk.example''" "emptyState\<lparr>apiCache := [30 \<mapsto> ''https://rsk.example'']\<rparr>"
      "''0xA1''" "[]" 100]
  have 1: "requiresApproval exampleWorld ''mainnet'' ''w1''
     ((exampleSwap ''x'')\<lparr>fromAsset := ''RBTC''\<rparr>) emptyState = (Inr False, emptyState)"
    using ra [of "(exampleSwap ''x'')\<lparr>fromAsset := ''RBTC''\<rparr>"]
    by (simp add: exampleWorld_simps)
  have 2: "requiresApproval exampleWorld ''mainnet'' ''w1'' (exampleSwap ''x'') emptyState =
     (Inr False, emptyState\<lparr>apiCache := [30 \<mapsto> ''https://rsk.example'']\<rparr>)"
    using ra [of "exampleSwap ''x''" 100]
    by (simp add: exampleWorld_simps exampleSwap_simps getApi_example)
  have 3: "requiresApproval exampleWorld ''mainnet'' ''w1''
     ((exampleSwap ''x'')\<lparr>fromAmount := BN 101\<rparr>) emptyState =
     (Inr True, emptyState\<lparr>apiCache := [30 \<mapsto> ''https://rsk.example'']\<rparr>)"
    using ra [of "(exampleSwap ''x'')\<lparr>fromAmount := BN 101\<rparr>" 101]
    by (simp add: exampleWorld_simps exampleSwap_simps getApi_example)
  show ?thesis
    using 1 2 3 by simp
qed

subsection \<open>C5: approving\<close>

text \<open>
  C5. If \<open>requiresApproval\<close> is false, \<open>approveTokens\<close> returns exactly the status
  APPROVE_CONFIRMED and calls \<open>sendTransaction\<close> not once. If it is true, the approval
  transaction is built and handed to \<open>sendTransaction\<close> (one more call, with that
  transaction), and the result is the status WAITING_FOR_APPROVE_CONFIRMATIONS with the
  transaction the client returned and its hash.
\<close>

theorem approveTokens_outcomes:
  "(requiresApproval w network walletId q s = (Inr False, s1) \<longrightarrow>
      approveTokens w network walletId q s =
        (Inr \<lparr>updates.status = ''APPROVE_CONFIRMED'', endTime = None, approveTx = None,
               updates.approveTxHash = None, swapTx = None, updates.swapTxHash = None\<rparr>, s1) \<and>
      sendTransactionCalls s1 = sendTransactionCalls s) \<and>
   (requiresApproval w network walletId q s = (Inr True, s1) \<and>
    buildApprovalTx w network walletId q s1 = (Inr txData, s2) \<and>
    chain_sendTransaction w txData = Inr approveTx' \<longrightarrow>
      approveTokens w network walletId q s =
        (Inr \<lparr>updates.status = ''WAITING_FOR_APPROVE_CONFIRMATIONS'', endTime = None,
               approveTx = Some approveTx', updates.approveTxHash = Some (hash approveTx'),
               swapTx = None, updates.swapTxHash = None\<rparr>,
         s2\<lparr>sendTransactionCalls := sendTransactionCalls s @ [txData]\<rparr>))"
proof -
  have a: "sendTransactionCalls s2 = sendTransactionCalls s"
    if "requiresApproval w network walletId q s = (Inr True, s1)"
      and "buildApprovalTx w network walletId q s1 = (Inr txData, s2)"
    using requiresApproval_calls [OF that(1)] buildApprovalTx_calls [OF that(2)] by simp
  show ?thesis
    using a
    by (auto simp add: approveTokens_def andThen_def ret_def sendTransaction_def
        dest: requiresApproval_calls)
qed

text \<open>
  The example swap with a sufficient allowance, and with an amount one unit above it.
\<close>

theorem approveTokens_outcomes_witness:
  "approveTokens exampleWorld ''mainnet'' ''w1'' (exampleSwap ''x'') emptyState =
     (Inr \<lparr>updates.status = ''APPROVE_CONFIRMED'', endTime = None, approveTx = None,
            updates.approveTxHash = None, swapTx = None, updates.swapTxHash = None\<rparr>,
      emptyState\<lparr>apiCache := [30 \<mapsto> ''https://rsk.example'']\<rparr>) \<and>
   approveTokens exampleWorld ''mainnet'' ''w1'' ((exampleSwap ''x'')\<lparr>fromAmount := BN 101\<rparr>)
       emptyState =
     (Inr \<lparr>updates.status = ''WAITING_FOR_APPROVE_CONFIRMATIONS'', endTime = None,
            approveTx = Some \<lparr>hash = ''0xh1'', confirmations = 0\<rparr>,
            updates.approveTxHash = Some ''0xh1'', swapTx = None, updates.swapTxHash = None\<rparr>,
      emptyState\<lparr>apiCache := [30 \<mapsto> ''https://rsk.example''],
                 sendTransactionCalls :=
                   [\<lparr>tx_from = Some ''0xA1'', tx_to = Some ''0xEFc78fc7'', tx_value = BN 0,
                     tx_data = Approve ''0xpresale'' 101, tx_fee = Some 5\<rparr>]\<rparr>)"
proof -
  have no: "requiresApproval exampleWorld ''mainnet'' ''w1'' (exampleSwap ''x'') emptyState =
     (Inr False, emptyState\<lparr>apiCache := [30 \<mapsto> ''https://rsk.example'']\<rparr>)"
    using requiresApproval_example [of 100] by (simp add: exampleSwap_def)
  have yes: "requiresApproval exampleWorld ''mainnet'' ''w1''
     ((exampleSwap ''x'')\<lparr>fromAmount := BN 101\<rparr>) emptyState =
     (Inr True, emptyState\<lparr>apiCache := [30 \<mapsto> ''https://rsk.example'']\<rparr>)"
    using requiresApproval_example [of 101] by simp
  have sent: "chain_sendTransaction exampleWorld
     \<lparr>tx_from = Some ''0xA1'', tx_to = Some ''0xEFc78fc7'', tx_value = BN 0,
      tx_data = Approve ''0xpresale'' 101, tx_fee = Some 5\<rparr> =
     Inr \<lparr>hash = ''0xh1'', confirmations = 0\<rparr>"
    by (simp add: exampleWorld_simps)
  have 1: "approveTokens exampleWorld ''mainnet'' ''w1'' (exampleSwap ''x'') emptyState =
     (Inr \<lparr>updates.status = ''APPROVE_CONFIRMED'', endTime = None, approveTx = None,
            updates.approveTxHash = None, swapTx = None, updates.swapTxHash = None\<rparr>,
      emptyState\<lparr>apiCache := [30 \<mapsto> ''https://rsk.example'']\<rparr>)"
    using approveTokens_outcomes [of exampleWorld "''mainnet''" "''w1''" "exampleSwap ''x''"
        emptyState] no by simp
  have 2: "approveTokens exampleWorld ''mainnet'' ''w1''
       ((exampleSwap ''x'')\<lparr>fromAmount := BN 101\<rparr>) emptyState =
     (Inr \<lparr>updates.status = ''WAITING_FOR_APPROVE_CONFIRMATIONS'', endTime = None,
            approveTx = Some \<lparr>hash = ''0xh1'', confirmations = 0\<rparr>,
            updates.approveTxHash = Some ''0xh1'', swapTx = None, updates.swapTxHash = None\<rparr>,
      emptyState\<lparr>apiCache := [30 \<mapsto> ''https://rsk.example''],
                 sendTransactionCalls :=
                   [\<lparr>tx_from = Some ''0xA1'', tx_to = Some ''0xEFc78fc7'', tx_value = BN 0,
                     tx_data = Approve ''0xpresale'' 101, tx_fee = Some 5\<rparr>]\<rparr>)"
    using approveTokens_outcomes [of exampleWorld "''mainnet''" "''w1''"
        "(exampleSwap ''x'')\<lparr>fromAmount := BN 101\<rparr>" emptyState
        "emptyState\<lparr>apiCache := [30 \<mapsto> ''https://rsk.example'']\<rparr>"
        "\<lparr>tx_from = Some ''0xA1'', tx_to = Some ''0xEFc78fc7'', tx_value = BN 0,
          tx_data = Approve ''0xpresale'' 101, tx_fee = Some 5\<rparr>"
        "emptyState\<lparr>apiCache := [30 \<mapsto> ''https://rsk.example'']\<rparr>"
        "\<lparr>hash = ''0xh1'', confirmations = 0\<rparr>"]
      yes buildApprovalTx_example sent
    by (simp add: emptyState_def)
  show ?thesis
    using 1 2 by simp
qed

subsection \<open>C6: polling the swap transaction\<close>

text \<open>
  C6. \<open>waitForSwapConfirmations\<close> returns no update when the transaction is not found
  (the client answers null or throws TxNotFoundError) or has no confirmation. When it is
  found with at least one confirmation and the receipt is there, the update has the
  status SUCCESS if the receipt status is 1 and FAILED otherwise, \<open>endTime\<close> is the
  current time, and the balances of the source asset are refreshed, in both cases.
\<close>

theorem waitForSwapConfirmations_outcomes:
  "(chain_getTransactionByHash w (swap.swapTxHash swap) = Inr None \<or>
    (\<exists>e. chain_getTransactionByHash w (swap.swapTxHash swap) = Inl e \<and>
         err_name e = ''TxNotFoundError'') \<or>
    (\<exists>t. chain_getTransactionByHash w (swap.swapTxHash swap) = Inr (Some t) \<and>
         confirmations t = 0)
    \<longrightarrow> waitForSwapConfirmations w network walletId swap s = (Inr None, s)) \<and>
   (\<forall>t r. chain_getTransactionByHash w (swap.swapTxHash swap) = Inr (Some t) \<and>
          1 \<le> confirmations t \<and>
          getTransactionReceipt w (swap.swapTxHash swap) = Inr (Some r)
    \<longrightarrow> waitForSwapConfirmations w network walletId swap s =
          (Inr (Some \<lparr>updates.status = (if receiptStatus r = 1 then ''SUCCESS'' else ''FAILED''),
                       endTime = Some (Date_now w), approveTx = None,
                       updates.approveTxHash = None, swapTx = None,
                       updates.swapTxHash = None\<rparr>),
           s\<lparr>updateBalancesCalls :=
                updateBalancesCalls s @ [(network, walletId, [fromAsset swap])]\<rparr>))"
  by (auto simp add: waitForSwapConfirmations_def catchTxNotFound_def andThen_def answer_def
      ret_def updateBalances_def)

text \<open>
  Not found (null), not found (error), no confirmation, three confirmations with receipt
  status 0, one confirmation with receipt status 1.
\<close>

theorem waitForSwapConfirmations_outcomes_witness:
  "waitForSwapConfirmations (exampleWorld\<lparr>chain_getTransactionByHash := (\<lambda>h. Inr None)\<rparr>)
     ''mainnet'' ''w1'' (exampleSwap ''WAITING_FOR_SWAP_CONFIRMATIONS'') emptyState =
     (Inr None, emptyState) \<and>
   waitForSwapConfirmations
     (exampleWorld\<lparr>chain_getTransactionByHash :=
        (\<lambda>h. Inl (JsError ''TxNotFoundError'' ''Transaction not found''))\<rparr>)
     ''mainnet'' ''w1'' (exampleSwap ''WAITING_FOR_SWAP_CONFIRMATIONS'') emptyState =
     (Inr None, emptyState) \<and>
   waitForSwapConfirmations
     (exampleWorld\<lparr>chain_getTransactionByHash :=
        (\<lambda>h. Inr (Some \<lparr>hash = ''0xh1'', confirmations = 0\<rparr>))\<rparr>)
     ''mainnet'' ''w1'' (exampleSwap ''WAITING_FOR_SWAP_CONFIRMATIONS'') emptyState =
     (Inr None, emptyState) \<and>
   waitForSwapConfirmations exampleWorld ''mainnet'' ''w1''
     (exampleSwap ''WAITING_FOR_SWAP_CONFIRMATIONS'') emptyState =
     (Inr (Some \<lparr>updates.status = ''FAILED'', endTime = Some 1650000000000, approveTx = None,
                  updates.approveTxHash = None, swapTx = None, updates.swapTxHash = None\<rparr>),
      emptyState\<lparr>updateBalancesCalls := [(''mainnet'', ''w1'', [''SOV''])]\<rparr>) \<and>
   waitForSwapConfirmations
     (exampleWorld\<lparr>chain_getTransactionByHash :=
        (\<lambda>h. Inr (Some \<lparr>hash = ''0xh1'', confirmations = 1\<rparr>)),
        getTransactionReceipt := (\<lambda>h. Inr (Some \<lparr>receiptStatus = 1\<rparr>))\<rparr>)
     ''mainnet'' ''w1'' (exampleSwap ''WAITING_FOR_SWAP_CONFIRMATIONS'') emptyState =
     (Inr (Some \<lparr>updates.status = ''SUCCESS'', endTime = Some 1650000000000, approveTx = None,
                  updates.approveTxHash = None, swapTx = None, updates.swapTxHash = None\<rparr>),
      emptyState\<lparr>updateBalancesCalls := [(''mainnet'', ''w1'', [''SOV''])]\<rparr>)"
proof -
  let ?swap = "exampleSwap ''WAITING_FOR_SWAP_CONFIRMATIONS''"
  note o = waitForSwapConfirmations_outcomes [of _ ?swap "''mainnet''" "''w1''" emptyState]
  have 1: "waitForSwapConfirmations (exampleWorld\<lparr>chain_getTransactionByHash := (\<lambda>h. Inr None)\<rparr>)
     ''mainnet'' ''w1'' ?swap emptyState = (Inr None, emptyState)"
    using o [of "exampleWorld\<lparr>chain_getTransactionByHash := (\<lambda>h. Inr None)\<rparr>"] by simp
  have 2: "waitForSwapConfirmations
     (exampleWorld\<lparr>chain_getTransactionByHash :=
        (\<lambda>h. Inl (JsError ''TxNotFoundError'' ''Transaction not found''))\<rparr>)
     ''mainnet'' ''w1'' ?swap emptyState = (Inr None, emptyState)"
    using o [of "exampleWorld\<lparr>chain_getTransactionByHash :=
        (\<lambda>h. Inl (JsError ''TxNotFoundError'' ''Transaction not found''))\<rparr>"] by simp
  have 3: "waitForSwapConfirmations
     (exampleWorld\<lparr>chain_getTransactionByHash :=
        (\<lambda>h. Inr (Some \<lparr>hash = ''0xh1'', confirmations = 0\<rparr>))\<rparr>)
     ''mainnet'' ''w1'' ?swap emptyState = (Inr None, emptyState)"
    using o [of "exampleWorld\<lparr>chain_getTransactionByHash :=
        (\<lambda>h. Inr (Some \<lparr>hash = ''0xh1'', confirmations = 0\<rparr>))\<rparr>"] by simp
  have 4: "waitForSwapConfirmations exampleWorld ''mainnet'' ''w1'' ?swap emptyState =
     (Inr (Some \<lparr>updates.status = ''FAILED'', endTime = Some 1650000000000, approveTx = None,
                  updates.approveTxHash = None, swapTx = None, updates.swapTxHash = None\<rparr>),
      emptyState\<lparr>updateBalancesCalls := [(''mainnet'', ''w1'', [''SOV''])]\<rparr>)"
    using o [of exampleWorld]
    by (simp add: exampleWorld_simps exampleSwap_simps emptyState_def)
  have 5: "waitForSwapConfirmations
     (exampleWorld\<lparr>chain_getTransactionByHash :=
        (\<lambda>h. Inr (Some \<lparr>hash = ''0xh1'', confirmations = 1\<rparr>)),
        getTransactionReceipt := (\<lambda>h. Inr (Some \<lparr>receiptStatus = 1\<rparr>))\<rparr>)
     ''mainnet'' ''w1'' ?swap emptyState =
     (Inr (Some \<lparr>updates.status = ''SUCCESS'', endTime = Some 1650000000000, approveTx = None,
                  updates.approveTxHash = None, swapTx = None, updates.swapTxHash = None\<rparr>),
      emptyState\<lparr>updateBalancesCalls := [(''mainnet'', ''w1'', [''SOV''])]\<rparr>)"
    using o [of "exampleWorld\<lparr>chain_getTransactionByHash :=
        (\<lambda>h. Inr (Some \<lparr>hash = ''0xh1'', confirmations = 1\<rparr>)),
        getTransactionReceipt := (\<lambda>h. Inr (Some \<lparr>receiptStatus = 1\<rparr>))\<rparr>"]
    by (simp add: exampleWorld_simps exampleSwap_simps emptyState_def)
  show ?thesis
    using 1 2 3 4 5 by simp
qed

subsection \<open>C7: fees\<close>

text \<open>
  C7. \<open>estimateFees\<close> throws at once, before anything else happens, for every
  \<open>txType\<close> other than SWAP. Otherwise the gas budget is 750000, plus the gas estimate of
  the approval transaction exactly when \<open>requiresApproval\<close> is true, and the fee of every
  fee price is budget times 1.1 times the price, the price taken in gwei
  (\<open>feePrice * 10 ^ 9\<close>) and the product converted by \<open>unitToCurrency\<close> to the unit of the
  native asset; no other price has a fee.
\<close>

theorem estimateFees_budget:
  "(txType \<noteq> ''SWAP'' \<longrightarrow>
      estimateFees w network walletId asset txType q feePrices s =
        (Inl (JsError ''Error'' (''Invalid tx type '' @ txType)), s)) \<and>
   (txType = ''SWAP'' \<and> cryptoassets w asset = Some assetInfo \<and>
    chains w (chain assetInfo) = Some nativeAsset \<and>
    cryptoassets w nativeAsset = Some nativeInfo \<and>
    requiresApproval w network walletId q s = (Inr False, s1) \<longrightarrow>
      estimateFees w network walletId asset txType q feePrices s =
        (Inr (\<lambda>feePrice. if feePrice \<in> set feePrices
                then Some (unitToCurrency nativeInfo
                             (BN (of_nat 750000 * (11 / 10) * (feePrice * 1000000000))))
                else None), s1)) \<and>
   (txType = ''SWAP'' \<and> cryptoassets w asset = Some assetInfo \<and>
    chains w (chain assetInfo) = Some nativeAsset \<and>
    cryptoassets w nativeAsset = Some nativeInfo \<and>
    requiresApproval w network walletId q s = (Inr True, s1) \<and>
    buildApprovalTx w network walletId q s1 = (Inr approvalTx, s2) \<and>
    estimateGas w \<lparr>raw_from = tx_from approvalTx, raw_to = tx_to approvalTx,
                    raw_data = tx_data approvalTx, raw_value = tx_value approvalTx\<rparr> = Inr gas \<longrightarrow>
      estimateFees w network walletId asset txType q feePrices s =
        (Inr (\<lambda>feePrice. if feePrice \<in> set feePrices
                then Some (unitToCurrency nativeInfo
                             (BN (of_nat (gas + 750000) * (11 / 10) * (feePrice * 1000000000))))
                else None), s2))"
  by (simp add: estimateFees_def fromTxType_def txTypes_SWAP_def throw_def andThen_def answer_def
      ret_def feesLoop_known cong: if_cong)

text \<open>
  The fee prices 5 and 10: a wrong type, no approval required (750000 gas), approval
  required with an estimate of 50000 gas (800000 gas).
\<close>

theorem estimateFees_budget_witness:
  "estimateFees exampleWorld ''mainnet'' ''w1'' ''SOV'' ''SEND'' (exampleSwap ''x'') [5, 10]
     emptyState = (Inl (JsError ''Error'' ''Invalid tx type SEND''), emptyState) \<and>
   (case fst (estimateFees exampleWorld ''mainnet'' ''w1'' ''SOV'' ''SWAP'' (exampleSwap ''x'')
                [5, 10] emptyState) of
      Inl e \<Rightarrow> []
    | Inr fees \<Rightarrow> [fees 5, fees 10, fees 7]) =
     [Some (BN (33 / 8000)), Some (BN (33 / 4000)), None] \<and>
   (case fst (estimateFees exampleWorld ''mainnet'' ''w1'' ''SOV'' ''SWAP''
                ((exampleSwap ''x'')\<lparr>fromAmount := BN 101\<rparr>) [5, 10] emptyState) of
      Inl e \<Rightarrow> []
    | Inr fees \<Rightarrow> [fees 5, fees 10, fees 7]) =
     [Some (BN (11 / 2500)), Some (BN (11 / 1250)), None]"
proof -
  note ef = estimateFees_budget [of _ exampleWorld "''mainnet''" "''w1''" "''SOV''" _ "[5, 10]"
      emptyState "\<lparr>chain = ''rsk'', decimals = 18, contractAddress = Some ''0xEFc78fc7''\<rparr>"
      "''RBTC''" "\<lparr>chain = ''rsk'', decimals = 18, contractAddress = None\<rparr>"
      "emptyState\<lparr>apiCache := [30 \<mapsto> ''https://rsk.example'']\<rparr>"
      "\<lparr>tx_from = Some ''0xA1'', tx_to = Some ''0xEFc78fc7'', tx_value = BN 0,
        tx_data = Approve ''0xpresale'' 101, tx_fee = Some 5\<rparr>"
      "emptyState\<lparr>apiCache := [30 \<mapsto> ''https://rsk.example'']\<rparr>" 50000]
  have no: "requiresApproval exampleWorld ''mainnet'' ''w1'' (exampleSwap ''x'') emptyState =
     (Inr False, emptyState\<lparr>apiCache := [30 \<mapsto> ''https://rsk.example'']\<rparr>)"
    using requiresApproval_example [of 100] by (simp add: exampleSwap_def)
  have yes: "requiresApproval exampleWorld ''mainnet'' ''w1''
     ((exampleSwap ''x'')\<lparr>fromAmount := BN 101\<rparr>) emptyState =
     (Inr True, emptyState\<lparr>apiCache := [30 \<mapsto> ''https://rsk.example'']\<rparr>)"
    using requiresApproval_example [of 101] by simp
  have 1: "estimateFees exampleWorld ''mainnet'' ''w1'' ''SOV'' ''SEND'' (exampleSwap ''x'') [5, 10]
     emptyState = (Inl (JsError ''Error'' ''Invalid tx type SEND''), emptyState)"
    using ef [of "''SEND''" "exampleSwap ''x''"] by simp
  have 2: "(case fst (estimateFees exampleWorld ''mainnet'' ''w1'' ''SOV'' ''SWAP'' (exampleSwap ''x'')
                [5, 10] emptyState) of
      Inl e \<Rightarrow> []
    | Inr fees \<Rightarrow> [fees 5, fees 10, fees 7]) =
     [Some (BN (33 / 8000)), Some (BN (33 / 4000)), None]"
    using ef [of "''SWAP''" "exampleSwap ''x''"] no
    by (simp add: exampleWorld_simps unitToCurrency_def round_fees)
  have 3: "(case fst (estimateFees exampleWorld ''mainnet'' ''w1'' ''SOV'' ''SWAP''
                ((exampleSwap ''x'')\<lparr>fromAmount := BN 101\<rparr>) [5, 10] emptyState) of
      Inl e \<Rightarrow> []
    | Inr fees \<Rightarrow> [fees 5, fees 10, fees 7]) =
     [Some (BN (11 / 2500)), Some (BN (11 / 1250)), None]"
    using ef [of "''SWAP''" "(exampleSwap ''x'')\<lparr>fromAmount := BN 101\<rparr>"] yes
      buildApprovalTx_example
    by (simp add: exampleWorld_simps unitToCurrency_def round_fees)
  show ?thesis
    using 1 2 3 by simp
qed

subsection \<open>C8: the shape of a quote\<close>




subsection \<open>C10: the approval confirmation stamps the end time\<close>

text \<open>
  C10. When \<open>waitForApproveConfirmations\<close> finds the approval transaction with more than
  zero confirmations, the update it returns has the status APPROVE_CONFIRMED and an
  \<open>endTime\<close> equal to the current time.
\<close>

theorem waitForApproveConfirmations_confirmed:
  assumes "chain_getTransactionByHash w (swap.approveTxHash swap) = Inr (Some t)"
    and "0 < confirmations t"
  shows "waitForApproveConfirmations w network walletId swap s =
           (Inr (Some \<lparr>updates.status = ''APPROVE_CONFIRMED'', endTime = Some (Date_now w),
                        approveTx = None, updates.approveTxHash = None, swapTx = None,
                        updates.swapTxHash = None\<rparr>), s)"
  using assms
  by (simp add: waitForApproveConfirmations_def catchTxNotFound_def andThen_def answer_def ret_def)

text \<open>
  The approval transaction of the example swap, found with three confirmations.
\<close>

theorem waitForApproveConfirmations_confirmed_witness:
  "waitForApproveConfirmations exampleWorld ''mainnet'' ''w1''
     (exampleSwap ''WAITING_FOR_APPROVE_CONFIRMATIONS'') emptyState =
   (Inr (Some \<lparr>updates.status = ''APPROVE_CONFIRMED'', endTime = Some 1650000000000,
                approveTx = None, updates.approveTxHash = None, swapTx = None,
                updates.swapTxHash = None\<rparr>), emptyState)"
proof -
  have found: "chain_getTransactionByHash exampleWorld
                 (swap.approveTxHash (exampleSwap ''WAITING_FOR_APPROVE_CONFIRMATIONS'')) =
               Inr (Some \<lparr>hash = ''0xh1'', confirmations = 3\<rparr>)"
    by (simp add: exampleWorld_def)
  have conf: "0 < confirmations \<lparr>hash = ''0xh1'', confirmations = 3\<rparr>"
    by simp
  have now: "Date_now exampleWorld = 1650000000000"
    by (simp add: exampleWorld_def)
  show ?thesis
    using waitForApproveConfirmations_confirmed [OF found conf, of "''mainnet''" "''w1''" emptyState]
    by (simp add: now)
qed

end
